theory Spec2Isabelle
  imports Main "HOL-Library.Word" "HOL-Library.Sublist"
begin

section \<open>JavaScript values\<close>

text \<open>
  The source file \<^verbatim>\<open>docs/.vuepress/collections/cppstudy.ts\<close> consists of one
  object literal, handed to \<^verbatim>\<open>defineCollection\<close> and exported as the module's default.
  A JavaScript string is a sequence of UTF-16 code units. Every character of the
  literals in the file lies in the Basic Multilingual Plane, so each one is a single
  code unit; the CJK characters are written below by their code points.
\<close>

type_synonym jsstring = "16 word list"

text \<open>The string made of the given ASCII characters.\<close>

definition ascii :: "string \<Rightarrow> jsstring" where
  "ascii s = map of_char s"

text \<open>
  The values an object literal is built from. An object keeps its properties in the
  order in which they are written.
\<close>

datatype jsvalue =
    JString jsstring
  | JBoolean bool
  | JNumber int
  | JArray "jsvalue list"
  | JObject "(string \<times> jsvalue) list"

text \<open>
  Reading a property: \<open>None\<close> stands for \<^verbatim>\<open>undefined\<close>, the result for a property
  that is absent. Were a key written twice in a literal, the later one would win.
\<close>

fun property :: "string \<Rightarrow> jsvalue \<Rightarrow> jsvalue option" where
  "property k (JObject kvs) = map_of (rev kvs) k"
| "property k (JString s) = None"
| "property k (JBoolean b) = None"
| "property k (JNumber n) = None"
| "property k (JArray vs) = None"

section \<open>The collection\<close>

text \<open>
  Modelled from the spec: \<^verbatim>\<open>defineCollection\<close> is imported from the package
  \<^verbatim>\<open>vuepress-theme-plume\<close>, whose code is not part of this repository. The spec describes
  the file as one exported configuration value, obtained by constructing a literal and
  passing it to the framework's function, with no algorithm beyond the construction of
  the literal: the function hands back the collection it is given.
\<close>

definition defineCollection :: "jsvalue \<Rightarrow> jsvalue" where
  "defineCollection collection = collection"

text \<open>
  The default export, property by property as in the source. The labels read
  \<^verbatim>\<open>C++: U+57FA U+7840 U+8BED U+6CD5\<close> for the group and
  \<^verbatim>\<open>U+7B2C <numeral> U+7AE0 <space> <title>\<close> for each chapter; each link is
  \<^verbatim>\<open><number>-<title>.md\<close>.
\<close>

definition cppstudy :: jsvalue where
  "cppstudy = defineCollection (JObject [
     (''type'', JString (ascii ''doc'')),
     (''dir'', JString (ascii ''cppstudy'')),
     (''linkPrefix'', JString (ascii ''/cppstudy'')),
     (''title'', JString (ascii ''cppstudy'')),
     (''sidebar'', JArray [
        JObject [
          (''text'', JString (ascii ''C++: '' @ [0x57FA, 0x7840, 0x8BED, 0x6CD5])),
          (''collapsed'', JBoolean True),
          (''items'', JArray [
             JObject [
               (''text'', JString ([0x7B2C, 0x4E00, 0x7AE0] @ ascii '' ''
                  @ [0x57FA, 0x672C, 0x6982, 0x5FF5])),
               (''link'', JString (ascii ''001-''
                  @ [0x57FA, 0x672C, 0x6982, 0x5FF5] @ ascii ''.md''))],
             JObject [
               (''text'', JString ([0x7B2C, 0x4E8C, 0x7AE0] @ ascii '' ''
                  @ [0x57FA, 0x672C, 0x6570, 0x636E, 0x7C7B, 0x578B])),
               (''link'', JString (ascii ''002-''
                  @ [0x57FA, 0x672C, 0x6570, 0x636E, 0x7C7B, 0x578B] @ ascii ''.md''))],
             JObject [
               (''text'', JString ([0x7B2C, 0x4E09, 0x7AE0] @ ascii '' ''
                  @ [0x5904, 0x7406, 0x57FA, 0x672C, 0x6570, 0x636E, 0x7C7B, 0x578B])),
               (''link'', JString (ascii ''003-''
                  @ [0x5904, 0x7406, 0x57FA, 0x672C, 0x6570, 0x636E, 0x7C7B, 0x578B]
                  @ ascii ''.md''))],
             JObject [
               (''text'', JString ([0x7B2C, 0x56DB, 0x7AE0] @ ascii '' ''
                  @ [0x51B3, 0x7B56])),
               (''link'', JString (ascii ''004-'' @ [0x51B3, 0x7B56] @ ascii ''.md''))],
             JObject [
               (''text'', JString ([0x7B2C, 0x4E94, 0x7AE0] @ ascii '' ''
                  @ [0x6570, 0x7EC4, 0x548C, 0x5FAA, 0x73AF])),
               (''link'', JString (ascii ''005-''
                  @ [0x6570, 0x7EC4, 0x548C, 0x5FAA, 0x73AF] @ ascii ''.md''))],
             JObject [
               (''text'', JString ([0x7B2C, 0x516D, 0x7AE0] @ ascii '' ''
                  @ [0x6307, 0x9488, 0x548C, 0x5F15, 0x7528])),
               (''link'', JString (ascii ''006-''
                  @ [0x6307, 0x9488, 0x548C, 0x5F15, 0x7528] @ ascii ''.md''))],
             JObject [
               (''text'', JString ([0x7B2C, 0x4E03, 0x7AE0] @ ascii '' ''
                  @ [0x64CD, 0x4F5C, 0x5B57, 0x7B26, 0x4E32])),
               (''link'', JString (ascii ''007-''
                  @ [0x64CD, 0x4F5C, 0x5B57, 0x7B26, 0x4E32] @ ascii ''.md''))]])]]),
     (''sidebarCollapsed'', JBoolean True)])"

section \<open>Reading typed properties\<close>

definition string_property :: "string \<Rightarrow> jsvalue \<Rightarrow> jsstring option" where
  "string_property k v = (case property k v of Some (JString s) \<Rightarrow> Some s | _ \<Rightarrow> None)"

definition boolean_property :: "string \<Rightarrow> jsvalue \<Rightarrow> bool option" where
  "boolean_property k v = (case property k v of Some (JBoolean b) \<Rightarrow> Some b | _ \<Rightarrow> None)"

definition array_property :: "string \<Rightarrow> jsvalue \<Rightarrow> jsvalue list option" where
  "array_property k v = (case property k v of Some (JArray vs) \<Rightarrow> Some vs | _ \<Rightarrow> None)"

text \<open>
  The items of the sidebar when it consists of a single group (the empty list for any
  other shape).
\<close>

definition group_items :: "jsvalue \<Rightarrow> jsvalue list" where
  "group_items c =
     (case array_property ''sidebar'' c of
        Some [g] \<Rightarrow> (case array_property ''items'' g of Some its \<Rightarrow> its | None \<Rightarrow> [])
      | _ \<Rightarrow> [])"

section \<open>Paths\<close>

definition slash :: "16 word" where
  "slash = 0x2F"

text \<open>
  The segments of a path: the pieces between its slashes. \<open>cur\<close> holds the segment
  being read, last character first.
\<close>

fun segments_from :: "jsstring \<Rightarrow> jsstring \<Rightarrow> jsstring list" where
  "segments_from cur [] = [rev cur]"
| "segments_from cur (c # cs) =
     (if c = slash then rev cur # segments_from [] cs else segments_from (c # cur) cs)"

definition segments :: "jsstring \<Rightarrow> jsstring list" where
  "segments p = segments_from [] p"

text \<open>A relative path is not empty and does not begin with a slash.\<close>

definition relative_path :: "jsstring \<Rightarrow> bool" where
  "relative_path p \<longleftrightarrow> p \<noteq> [] \<and> \<not> prefix (ascii ''/'') p"

text \<open>
  A relative path with no \<^verbatim>\<open>..\<close> segment cannot leave the directory it is resolved
  against.
\<close>

definition stays_within :: "jsstring \<Rightarrow> bool" where
  "stays_within p \<longleftrightarrow> relative_path p \<and> ascii ''..'' \<notin> set (segments p)"

text \<open>
  The shape the data model gives a sidebar item (a label and a link into the
  directory) and a sidebar group (a label, a collapse flag and a list of items).
\<close>

definition well_formed_item :: "jsvalue \<Rightarrow> bool" where
  "well_formed_item it =
     (case (string_property ''text'' it, string_property ''link'' it) of
        (Some _, Some l) \<Rightarrow> stays_within l
      | _ \<Rightarrow> False)"

definition well_formed_group :: "jsvalue \<Rightarrow> bool" where
  "well_formed_group g =
     (case (string_property ''text'' g, boolean_property ''collapsed'' g,
            array_property ''items'' g) of
        (Some _, Some _, Some its) \<Rightarrow> list_all well_formed_item its
      | _ \<Rightarrow> False)"

section \<open>Chapter numbers\<close>

definition digit :: "nat \<Rightarrow> 16 word" where
  "digit d = 0x30 + of_nat d"

text \<open>A number below 1000 written with three decimal digits, padded with zeros.\<close>

definition three_digits :: "nat \<Rightarrow> jsstring" where
  "three_digits n = [digit (n div 100 mod 10), digit (n div 10 mod 10), digit (n mod 10)]"

definition is_digit :: "16 word \<Rightarrow> bool" where
  "is_digit c \<longleftrightarrow> 0x30 \<le> c \<and> c \<le> 0x39"

text \<open>The number a string starts with: the value of its leading decimal digits.\<close>

definition leading_number :: "jsstring \<Rightarrow> nat" where
  "leading_number s = foldl (\<lambda>n c. 10 * n + unat (c - 0x30)) 0 (takeWhile is_digit s)"

text \<open>
  The Chinese numerals for one to nine (U+4E00, U+4E8C, U+4E09, U+56DB, U+4E94,
  U+516D, U+4E03, U+516B, U+4E5D), and the heading of chapter \<open>n\<close>: U+7B2C, the
  numeral, U+7AE0.
\<close>

definition chinese_numerals :: "16 word list" where
  "chinese_numerals =
     [0x4E00, 0x4E8C, 0x4E09, 0x56DB, 0x4E94, 0x516D, 0x4E03, 0x516B, 0x4E5D]"

definition chapter_heading :: "nat \<Rightarrow> jsstring option" where
  "chapter_heading n =
     (if 1 \<le> n \<and> n \<le> 9 then Some [0x7B2C, chinese_numerals ! (n - 1), 0x7AE0] else None)"

section \<open>The fields of the collection\<close>

lemmas collection_defs = cppstudy_def defineCollection_def string_property_def
  boolean_property_def array_property_def group_items_def

lemmas path_defs = ascii_def slash_def segments_def relative_path_def stays_within_def
  well_formed_item_def well_formed_group_def

lemmas number_defs = ascii_def digit_def three_digits_def is_digit_def leading_number_def
  chinese_numerals_def chapter_heading_def

text \<open>
  C3: the \<^verbatim>\<open>type\<close> field of the exported configuration is the string \<^verbatim>\<open>doc\<close>.
\<close>

theorem type_is_doc:
  "property ''type'' cppstudy = Some (JString (ascii ''doc''))"
  by (simp add: cppstudy_def defineCollection_def)

text \<open>
  C4: the \<^verbatim>\<open>dir\<close> field of the exported configuration is a string, it is a relative
  path (it does not begin with a slash), and it is \<^verbatim>\<open>cppstudy\<close>.
\<close>

theorem dir_is_relative:
  "\<exists>d. property ''dir'' cppstudy = Some (JString d)
     \<and> relative_path d \<and> \<not> prefix (ascii ''/'') d
     \<and> d = ascii ''cppstudy''"
  by (simp add: cppstudy_def defineCollection_def relative_path_def ascii_def)

text \<open>
  C5: the \<^verbatim>\<open>sidebarCollapsed\<close> field of the exported configuration is the boolean
  \<^verbatim>\<open>true\<close>: it is not a string, not a number, and not absent.
\<close>

theorem sidebarCollapsed_is_boolean:
  "property ''sidebarCollapsed'' cppstudy = Some (JBoolean True)
   \<and> (\<forall>s. property ''sidebarCollapsed'' cppstudy \<noteq> Some (JString s))
   \<and> (\<forall>n. property ''sidebarCollapsed'' cppstudy \<noteq> Some (JNumber n))
   \<and> property ''sidebarCollapsed'' cppstudy \<noteq> None"
  by (simp add: cppstudy_def defineCollection_def)

text \<open>
  C8: \<^verbatim>\<open>linkPrefix\<close> is a slash followed by \<^verbatim>\<open>dir\<close>, and \<^verbatim>\<open>title\<close> equals
  \<^verbatim>\<open>dir\<close>; all three are built from the string \<^verbatim>\<open>cppstudy\<close>.
\<close>

theorem linkPrefix_and_title_from_dir:
  "\<exists>d. string_property ''dir'' cppstudy = Some d
     \<and> string_property ''linkPrefix'' cppstudy = Some (ascii ''/'' @ d)
     \<and> string_property ''title'' cppstudy = Some d
     \<and> d = ascii ''cppstudy''"
  by (simp add: collection_defs ascii_def)

section \<open>The sidebar\<close>

text \<open>
  C2: the \<^verbatim>\<open>sidebar\<close> field of the exported configuration is a sequence of groups;
  every group has a string \<^verbatim>\<open>text\<close>, a boolean \<^verbatim>\<open>collapsed\<close> and a sequence
  \<^verbatim>\<open>items\<close>; every item has a string \<^verbatim>\<open>text\<close> and a string \<^verbatim>\<open>link\<close> that is a
  relative path staying within \<^verbatim>\<open>dir\<close>, so that no link begins with a slash.
\<close>

theorem sidebar_shape:
  "\<exists>groups. array_property ''sidebar'' cppstudy = Some groups
     \<and> list_all well_formed_group groups"
  by (simp add: collection_defs path_defs)

text \<open>
  C9: the sidebar has exactly one group; the group is collapsed and has exactly seven
  items; every item's link ends with \<^verbatim>\<open>.md\<close>, and the links are pairwise distinct.
\<close>

theorem one_group_of_seven_items:
  "\<exists>g its. array_property ''sidebar'' cppstudy = Some [g]
     \<and> boolean_property ''collapsed'' g = Some True
     \<and> array_property ''items'' g = Some its
     \<and> length its = 7
     \<and> list_all (\<lambda>it. \<exists>l. string_property ''link'' it = Some l
                            \<and> suffix (ascii ''.md'') l) its
     \<and> distinct (map (string_property ''link'') its)"
  by (simp add: collection_defs ascii_def suffix_to_prefix)

text \<open>
  C10: in the single sidebar group, for every index \<open>i\<close> from 0 to 6 the link of item
  \<open>i\<close> begins with the number \<open>i + 1\<close> written with three digits and a hyphen
  (\<^verbatim>\<open>001-\<close> to \<^verbatim>\<open>007-\<close>), and the label of item \<open>i\<close> begins with the heading of
  chapter \<open>i + 1\<close>; hence the numbers the links start with are strictly increasing and
  agree with the chapter numbers of the labels.
\<close>

theorem links_numbered:
  "length (group_items cppstudy) = 7
   \<and> (\<forall>i<7. \<exists>l t h.
          string_property ''link'' (group_items cppstudy ! i) = Some l
        \<and> prefix (three_digits (i + 1) @ ascii ''-'') l
        \<and> leading_number l = i + 1
        \<and> string_property ''text'' (group_items cppstudy ! i) = Some t
        \<and> chapter_heading (i + 1) = Some h \<and> prefix h t)
   \<and> sorted_wrt (<) (map leading_number
        (List.map_filter (string_property ''link'') (group_items cppstudy)))"
proof (intro conjI allI impI)
  show "length (group_items cppstudy) = 7"
    by (simp add: collection_defs)
next
  fix i :: nat
  assume "i < 7"
  then consider "i = 0" | "i = 1" | "i = 2" | "i = 3" | "i = 4" | "i = 5" | "i = 6"
    by linarith
  then show "\<exists>l t h.
          string_property ''link'' (group_items cppstudy ! i) = Some l
        \<and> prefix (three_digits (i + 1) @ ascii ''-'') l
        \<and> leading_number l = i + 1
        \<and> string_property ''text'' (group_items cppstudy ! i) = Some t
        \<and> chapter_heading (i + 1) = Some h \<and> prefix h t"
    by cases (simp_all add: collection_defs number_defs)
next
  show "sorted_wrt (<) (map leading_number
        (List.map_filter (string_property ''link'') (group_items cppstudy)))"
    by (simp add: collection_defs number_defs List.map_filter_def)
qed

text \<open>The last item, at index 6: its link begins with \<^verbatim>\<open>007-\<close>.\<close>

theorem links_numbered_witness:
  "\<exists>l. string_property ''link'' (group_items cppstudy ! 6) = Some l
      \<and> prefix (ascii ''007-'') l \<and> leading_number l = 7"
proof -
  have six: "(6::nat) < 7" by simp
  from links_numbered have "\<forall>i<7. \<exists>l t h.
          string_property ''link'' (group_items cppstudy ! i) = Some l
        \<and> prefix (three_digits (i + 1) @ ascii ''-'') l
        \<and> leading_number l = i + 1
        \<and> string_property ''text'' (group_items cppstudy ! i) = Some t
        \<and> chapter_heading (i + 1) = Some h \<and> prefix h t"
    by blast
  then obtain l where "string_property ''link'' (group_items cppstudy ! 6) = Some l"
    and "prefix (three_digits (6 + 1) @ ascii ''-'') l" and "leading_number l = 6 + 1"
    using six by blast
  moreover have "three_digits (6 + 1) @ ascii ''-'' = ascii ''007-''"
    by (simp add: three_digits_def digit_def ascii_def)
  ultimately show ?thesis by simp
qed

end
